theory Spec2Isabelle
  imports Main "HOL-Library.Product_Lexorder"
begin

section \<open>TTerm kanban board: the screens and the application of tterminal/main.py\<close>

text \<open>
  The development embeds the functions of \<^verbatim>\<open>tterminal/main.py\<close> that read and change
  tasks: \<^verbatim>\<open>NewTaskScreen.create_task\<close>, \<^verbatim>\<open>EditTaskScreen.save_task\<close> and
  \<^verbatim>\<open>delete_task\<close>, and of \<^verbatim>\<open>TodoApp\<close> the handlers \<^verbatim>\<open>on_mount\<close>, \<^verbatim>\<open>on_unmount\<close>,
  \<^verbatim>\<open>refresh_tasks\<close>, \<^verbatim>\<open>action_move_task_left\<close> and \<^verbatim>\<open>action_move_task_right\<close>.
  The module \<^verbatim>\<open>tterminal/models.py\<close> (\<^verbatim>\<open>Task\<close>, \<^verbatim>\<open>TaskManager\<close>, \<^verbatim>\<open>Priority\<close>,
  \<^verbatim>\<open>Status\<close>) is imported by main.py but is not part of the sources at hand; what main.py
  uses of it is modelled from the specification and marked as such.
\<close>

subsection \<open>Strings\<close>

text \<open>
  A Python \<^verbatim>\<open>str\<close> is modelled as a \<^typ>\<open>string\<close> whose characters are the code points
  0 to 255. \<^verbatim>\<open>str.strip()\<close> removes leading and trailing white space; among these code
  points Python counts as white space 9 to 13, 28 to 32, 133 and 160.
\<close>

definition isspace :: "char \<Rightarrow> bool" where
  "isspace c =
     (let n = (of_char c :: nat)
      in (9 \<le> n \<and> n \<le> 13) \<or> (28 \<le> n \<and> n \<le> 32) \<or> n = 133 \<or> n = 160)"

definition strip :: "string \<Rightarrow> string" where
  "strip s = rev (dropWhile isspace (rev (dropWhile isspace s)))"

subsection \<open>Dates and the library's date parser\<close>

text \<open>
  A deadline is the \<^verbatim>\<open>datetime\<close> that \<^verbatim>\<open>datetime.strptime(s, "%Y-%m-%d")\<close> returns: a
  calendar day at midnight, modelled as (year, month, day), ordered lexicographically.
  \<^verbatim>\<open>created_at\<close> is a reading of the wall clock, modelled as a natural number.

  The screens call the standard library's \<^verbatim>\<open>strptime\<close> inside \<^verbatim>\<open>try ... except ValueError\<close>.
  The functions below take the parser as an argument of type
  \<^typ>\<open>string \<Rightarrow> (nat \<times> nat \<times> nat) option\<close>, where \<open>None\<close> stands for the raised
  \<^verbatim>\<open>ValueError\<close>, so that every theorem holds for whatever the library accepts.
  \<open>strptime_ymd\<close> is a concrete parser for the format \<^verbatim>\<open>%Y-%m-%d\<close>, used to evaluate
  the functions on examples: four digits, \<^verbatim>\<open>-\<close>, a month (\<^verbatim>\<open>1[0-2]|0[1-9]|[1-9]\<close>),
  \<^verbatim>\<open>-\<close>, a day (\<^verbatim>\<open>3[0-1]|[1-2][0-9]|0[1-9]|[1-9]| [1-9]\<close>), nothing after it, and the day
  must exist in that month of that year (years start at 1).
\<close>

type_synonym date = "nat \<times> nat \<times> nat"

type_synonym parser = "string \<Rightarrow> date option"

definition is_digit :: "char \<Rightarrow> bool" where
  "is_digit c = (let n = (of_char c :: nat) in 48 \<le> n \<and> n \<le> 57)"

definition digit_val :: "char \<Rightarrow> nat" where
  "digit_val c = (of_char c :: nat) - 48"

fun parse_year :: "string \<Rightarrow> (nat \<times> string) option" where
  "parse_year (a # b # c # d # rest) =
     (if is_digit a \<and> is_digit b \<and> is_digit c \<and> is_digit d
      then Some (1000 * digit_val a + 100 * digit_val b + 10 * digit_val c + digit_val d, rest)
      else None)"
| "parse_year _ = None"

fun parse_dash :: "string \<Rightarrow> string option" where
  "parse_dash (c # rest) = (if c = CHR ''-'' then Some rest else None)"
| "parse_dash [] = None"

definition one_to_nine :: "char \<Rightarrow> bool" where
  "one_to_nine c = (is_digit c \<and> c \<noteq> CHR ''0'')"

fun parse_month :: "string \<Rightarrow> (nat \<times> string) option" where
  "parse_month (a # b # rest) =
     (if a = CHR ''1'' \<and> (b = CHR ''0'' \<or> b = CHR ''1'' \<or> b = CHR ''2'')
        then Some (10 + digit_val b, rest)
      else if a = CHR ''0'' \<and> one_to_nine b then Some (digit_val b, rest)
      else if one_to_nine a then Some (digit_val a, b # rest)
      else None)"
| "parse_month [a] = (if one_to_nine a then Some (digit_val a, []) else None)"
| "parse_month [] = None"

fun parse_day :: "string \<Rightarrow> (nat \<times> string) option" where
  "parse_day (a # b # rest) =
     (if a = CHR ''3'' \<and> (b = CHR ''0'' \<or> b = CHR ''1'') then Some (30 + digit_val b, rest)
      else if (a = CHR ''1'' \<or> a = CHR ''2'') \<and> is_digit b
        then Some (10 * digit_val a + digit_val b, rest)
      else if a = CHR ''0'' \<and> one_to_nine b then Some (digit_val b, rest)
      else if one_to_nine a then Some (digit_val a, b # rest)
      else if a = CHR '' '' \<and> one_to_nine b then Some (digit_val b, rest)
      else None)"
| "parse_day [a] = (if one_to_nine a then Some (digit_val a, []) else None)"
| "parse_day [] = None"

definition is_leap :: "nat \<Rightarrow> bool" where
  "is_leap y = (if y mod 100 = 0 then y mod 400 = 0 else y mod 4 = 0)"

definition days_in_month :: "nat \<Rightarrow> nat \<Rightarrow> nat" where
  "days_in_month y m =
     (if m = 2 then (if is_leap y then 29 else 28)
      else if m = 4 \<or> m = 6 \<or> m = 9 \<or> m = 11 then 30
      else 31)"

definition strptime_ymd :: parser where
  "strptime_ymd s =
     (case parse_year s of
        None \<Rightarrow> None
      | Some (y, s1) \<Rightarrow>
     (case parse_dash s1 of
        None \<Rightarrow> None
      | Some s2 \<Rightarrow>
     (case parse_month s2 of
        None \<Rightarrow> None
      | Some (m, s3) \<Rightarrow>
     (case parse_dash s3 of
        None \<Rightarrow> None
      | Some s4 \<Rightarrow>
     (case parse_day s4 of
        None \<Rightarrow> None
      | Some (d, s5) \<Rightarrow>
          if s5 = [] \<and> 1 \<le> y \<and> d \<le> days_in_month y m then Some (y, m, d) else None)))))"

subsection \<open>The task model (models.py)\<close>

text \<open>
  Modelled from the spec: the enumeration \<^verbatim>\<open>Priority\<close> of models.py (missing), four values;
  main.py names them in its select widgets.
\<close>

datatype priority =
  URGENT_IMPORTANT | NOT_URGENT_IMPORTANT | URGENT_NOT_IMPORTANT | NOT_URGENT_NOT_IMPORTANT

text \<open>
  Modelled from the spec: the enumeration \<^verbatim>\<open>Status\<close> of models.py (missing), the column
  a task is in.
\<close>

datatype status = TODO | DOING | DONE

text \<open>
  Modelled from the spec: the fields of \<^verbatim>\<open>Task\<close> (models.py is missing); \<open>task_id\<close> is
  the field \<^verbatim>\<open>id\<close>.
\<close>

record task =
  task_id :: string
  title :: string
  description :: string
  priority :: priority
  status :: status
  deadline :: "date option"
  created_at :: nat

text \<open>
  Modelled from the spec: the constructor of \<^verbatim>\<open>Task\<close> (models.py is missing). main.py calls
  \<^verbatim>\<open>Task(id=, title=, description=, priority=, deadline=)\<close> and leaves status and
  created_at to the defaults, which the specification gives as \<^verbatim>\<open>todo\<close> and the wall-clock
  time of the call (the argument \<open>now\<close>).
\<close>

definition Task :: "nat \<Rightarrow> string \<Rightarrow> string \<Rightarrow> string \<Rightarrow> priority \<Rightarrow> date option \<Rightarrow> task" where
  "Task now i t d p dl =
     \<lparr>task_id = i, title = t, description = d, priority = p, status = TODO,
      deadline = dl, created_at = now\<rparr>"

text \<open>
  Modelled from the spec: the rank of a priority, lower is more urgent (an attribute of the
  enumeration of the missing models.py).
\<close>

fun rank :: "priority \<Rightarrow> nat" where
  "rank URGENT_IMPORTANT = 0"
| "rank NOT_URGENT_IMPORTANT = 1"
| "rank URGENT_NOT_IMPORTANT = 2"
| "rank NOT_URGENT_NOT_IMPORTANT = 3"

text \<open>
  Modelled from the spec: the string value of a status in upper case, the
  \<^verbatim>\<open>new_status.value.upper()\<close> of main.py; the values of the missing enumeration are
  \<^verbatim>\<open>todo\<close>, \<^verbatim>\<open>doing\<close> and \<^verbatim>\<open>done\<close>.
\<close>

fun status_value_upper :: "status \<Rightarrow> string" where
  "status_value_upper TODO = ''TODO''"
| "status_value_upper DOING = ''DOING''"
| "status_value_upper DONE = ''DONE''"

text \<open>
  Modelled from the spec: the state of \<^verbatim>\<open>TaskManager\<close> (models.py is missing). The manager
  owns the ordered collection \<open>tasks\<close>; \<open>storage\<close> is the snapshot persisted last.
\<close>

record manager =
  tasks :: "task list"
  storage :: "task list"

text \<open>
  Modelled from the spec: \<^verbatim>\<open>save()\<close> writes the whole collection to storage, overwriting
  the previous snapshot. Writing is modelled as succeeding.
\<close>

definition save :: "manager \<Rightarrow> manager" where
  "save m = m\<lparr>storage := tasks m\<rparr>"

text \<open>Modelled from the spec: \<^verbatim>\<open>force_save()\<close> is the same as \<^verbatim>\<open>save()\<close>.\<close>

definition force_save :: "manager \<Rightarrow> manager" where
  "force_save m = save m"

text \<open>
  Modelled from the spec: \<^verbatim>\<open>add_task(task)\<close>, the call by which main.py hands a finished
  task to the manager: the task is appended to the collection, which is then persisted.
\<close>

definition add_task :: "task \<Rightarrow> manager \<Rightarrow> manager" where
  "add_task t m = save (m\<lparr>tasks := tasks m @ [t]\<rparr>)"

text \<open>Modelled from the spec: the task that an id matches, the first one in the collection.\<close>

definition find_task :: "string \<Rightarrow> task list \<Rightarrow> task option" where
  "find_task i ts = find (\<lambda>t. task_id t = i) ts"

text \<open>
  Modelled from the spec: a deadline passed to \<^verbatim>\<open>update_task\<close> is a value (a date or
  Python's \<^verbatim>\<open>None\<close>) or a text still to be parsed.
\<close>

datatype deadline_arg = DeadlineValue "date option" | DeadlineText string

text \<open>
  Modelled from the spec: the keyword arguments of \<^verbatim>\<open>update_task\<close>, any subset of title,
  description, priority, status and deadline; \<open>None\<close> is a field that is not supplied.
\<close>

record fields =
  f_title :: "string option"
  f_description :: "string option"
  f_priority :: "priority option"
  f_status :: "status option"
  f_deadline :: "deadline_arg option"

text \<open>Modelled from the spec: no field supplied.\<close>

definition no_fields :: fields where
  "no_fields =
     \<lparr>f_title = None, f_description = None, f_priority = None, f_status = None,
      f_deadline = None\<rparr>"

text \<open>
  Modelled from the spec: a supplied title that trims to empty leaves the title unchanged;
  any other supplied title overwrites it.
\<close>

definition set_title :: "string option \<Rightarrow> task \<Rightarrow> task" where
  "set_title a t =
     (case a of
        None \<Rightarrow> t
      | Some s \<Rightarrow> if strip s = [] then t else t\<lparr>title := s\<rparr>)"

text \<open>
  Modelled from the spec: a deadline supplied as text that fails to parse leaves the
  deadline unchanged; a text that parses and a supplied value overwrite it.
\<close>

definition set_deadline :: "parser \<Rightarrow> deadline_arg option \<Rightarrow> task \<Rightarrow> task" where
  "set_deadline strptime a t =
     (case a of
        None \<Rightarrow> t
      | Some (DeadlineValue v) \<Rightarrow> t\<lparr>deadline := v\<rparr>
      | Some (DeadlineText s) \<Rightarrow>
          (case strptime s of None \<Rightarrow> t | Some d \<Rightarrow> t\<lparr>deadline := Some d\<rparr>))"

text \<open>
  Modelled from the spec: the supplied fields applied to a task; description, priority and
  status overwrite unconditionally.
\<close>

definition apply_fields :: "parser \<Rightarrow> fields \<Rightarrow> task \<Rightarrow> task" where
  "apply_fields strptime f t =
     set_deadline strptime (f_deadline f)
       ((set_title (f_title f) t)
          \<lparr>description := (case f_description f of None \<Rightarrow> description t | Some d \<Rightarrow> d),
           priority := (case f_priority f of None \<Rightarrow> priority t | Some p \<Rightarrow> p),
           status := (case f_status f of None \<Rightarrow> status t | Some s \<Rightarrow> s)\<rparr>)"

text \<open>Modelled from the spec: the change is made to the task that the id matches.\<close>

fun update_first :: "string \<Rightarrow> (task \<Rightarrow> task) \<Rightarrow> task list \<Rightarrow> task list" where
  "update_first i g [] = []"
| "update_first i g (t # ts) = (if task_id t = i then g t # ts else t # update_first i g ts)"

text \<open>
  Modelled from the spec: \<^verbatim>\<open>update_task(id, **fields)\<close> returns false and changes nothing
  when no task has the id; otherwise it changes that task, persists and returns true.
\<close>

definition update_task :: "parser \<Rightarrow> string \<Rightarrow> fields \<Rightarrow> manager \<Rightarrow> bool \<times> manager" where
  "update_task strptime i f m =
     (case find_task i (tasks m) of
        None \<Rightarrow> (False, m)
      | Some _ \<Rightarrow>
          (True, save (m\<lparr>tasks := update_first i (apply_fields strptime f) (tasks m)\<rparr>)))"

text \<open>Modelled from the spec: the collection without the task that the id matches.\<close>

fun remove_first :: "string \<Rightarrow> task list \<Rightarrow> task list" where
  "remove_first i [] = []"
| "remove_first i (t # ts) = (if task_id t = i then ts else t # remove_first i ts)"

text \<open>
  Modelled from the spec: the manager's \<^verbatim>\<open>delete_task(id)\<close> removes the task with the id
  if there is one, persists, and returns whether a task was removed.
\<close>

definition delete_task_m :: "string \<Rightarrow> manager \<Rightarrow> bool \<times> manager" where
  "delete_task_m i m =
     (case find_task i (tasks m) of
        None \<Rightarrow> (False, m)
      | Some _ \<Rightarrow> (True, save (m\<lparr>tasks := remove_first i (tasks m)\<rparr>)))"

text \<open>
  Modelled from the spec: \<^verbatim>\<open>get_tasks_by_status\<close> returns, in the order of the
  collection, the tasks with the status.
\<close>

definition get_tasks_by_status :: "manager \<Rightarrow> status \<Rightarrow> task list" where
  "get_tasks_by_status m s = filter (\<lambda>t. status t = s) (tasks m)"

text \<open>
  Modelled from the spec: sorting by priority is ascending by rank, ties broken by
  \<open>created_at\<close> ascending.
\<close>

definition sort_tasks_by_priority :: "task list \<Rightarrow> task list" where
  "sort_tasks_by_priority ts = sort_key (\<lambda>t. (rank (priority t), created_at t)) ts"

text \<open>Modelled from the spec: sorting by date is ascending by \<open>created_at\<close>.\<close>

definition sort_tasks_by_date :: "task list \<Rightarrow> task list" where
  "sort_tasks_by_date ts = sort_key created_at ts"

text \<open>
  Modelled from the spec: the key of the sort by deadline; a task without a deadline comes
  after every task that has one.
\<close>

definition deadline_key :: "task \<Rightarrow> nat \<times> date" where
  "deadline_key t = (case deadline t of Some d \<Rightarrow> (0, d) | None \<Rightarrow> (1, (0, 0, 0)))"

text \<open>
  Modelled from the spec: sorting by deadline is ascending by deadline, the tasks without a
  deadline last and in the order they came in (the sort is stable).
\<close>

definition sort_tasks_by_deadline :: "task list \<Rightarrow> task list" where
  "sort_tasks_by_deadline ts = sort_key deadline_key ts"

subsection \<open>The application state\<close>

text \<open>
  What main.py does to the outside is recorded in a trace: the calls it makes to the task
  manager, the rebuilding of the three columns, the notifications and the dismissal of a
  modal screen.
\<close>

datatype event =
  AddTaskCall task
| UpdateTaskCall string fields
| DeleteTaskCall string
| ForceSaveCall
| Rebuild
| Notify string
| Dismiss

text \<open>
  A \<^verbatim>\<open>KanbanColumn\<close> holds the \<^verbatim>\<open>TaskWidget\<close>s it shows; a widget is modelled by the task
  it was built from. The three columns exist once \<^verbatim>\<open>compose\<close> has run; \<open>board = None\<close> is
  the application before that (\<^verbatim>\<open>hasattr(self, 'todo_column')\<close> is false).
\<close>

record columns =
  todo_column :: "task list"
  doing_column :: "task list"
  done_column :: "task list"

record app =
  task_manager :: manager
  sort_mode :: string
  last_task_count :: nat
  board :: "columns option"
  trace :: "event list"

text \<open>
  \<^verbatim>\<open>TodoApp.__init__\<close> with the manager it constructs, and \<^verbatim>\<open>compose\<close>, which creates the
  three empty columns.
\<close>

definition TodoApp :: "manager \<Rightarrow> app" where
  "TodoApp m =
     \<lparr>task_manager = m, sort_mode = ''priority'', last_task_count = 0, board = None,
      trace = []\<rparr>"

definition compose :: "app \<Rightarrow> app" where
  "compose a = a\<lparr>board := Some \<lparr>todo_column = [], doing_column = [], done_column = []\<rparr>\<rparr>"

text \<open>
  \<^verbatim>\<open>refresh_tasks(force)\<close>: the tasks of each status, ordered by the sort mode, replace the
  contents of the column of that status.
\<close>

definition sorted_for :: "string \<Rightarrow> task list \<Rightarrow> task list" where
  "sorted_for mode ts =
     (if mode = ''priority'' then sort_tasks_by_priority ts
      else if mode = ''date'' then sort_tasks_by_date ts
      else if mode = ''deadline'' then sort_tasks_by_deadline ts
      else ts)"

definition column_tasks :: "app \<Rightarrow> status \<Rightarrow> task list" where
  "column_tasks a s = sorted_for (sort_mode a) (get_tasks_by_status (task_manager a) s)"

definition refresh_tasks :: "bool \<Rightarrow> app \<Rightarrow> app" where
  "refresh_tasks force a =
     (let current_task_count = length (tasks (task_manager a))
      in if \<not> force \<and> current_task_count = last_task_count a then a
         else
           (let a1 = a\<lparr>last_task_count := current_task_count\<rparr>
            in case board a1 of
                 None \<Rightarrow> a1
               | Some _ \<Rightarrow>
                   a1\<lparr>board :=
                        Some \<lparr>todo_column = column_tasks a1 TODO,
                              doing_column = column_tasks a1 DOING,
                              done_column = column_tasks a1 DONE\<rparr>,
                      trace := trace a1 @ [Rebuild]\<rparr>))"

definition on_mount :: "app \<Rightarrow> app" where
  "on_mount a = refresh_tasks False a"

definition on_unmount :: "app \<Rightarrow> app" where
  "on_unmount a =
     a\<lparr>task_manager := force_save (task_manager a), trace := trace a @ [ForceSaveCall]\<rparr>"

subsection \<open>NewTaskScreen\<close>

text \<open>
  The values of the widgets when the button is pressed are the input. The select widgets are
  built over the members of the enumerations and are modelled as holding one of them.
  \<open>uuid\<close> is the string \<^verbatim>\<open>str(uuid.uuid4())\<close> drawn by the screen, \<open>now\<close> the clock.
\<close>

record new_task_form =
  title_input :: string
  description_input :: string
  deadline_input :: string
  priority_select :: priority

definition create_task :: "parser \<Rightarrow> string \<Rightarrow> nat \<Rightarrow> new_task_form \<Rightarrow> app \<Rightarrow> app" where
  "create_task strptime uuid now form a =
     (let title' = strip (title_input form)
      in if title' = [] then a
         else
           (let description' = strip (description_input form);
                priority' = priority_select form;
                deadline_str = strip (deadline_input form);
                deadline' =
                  (if deadline_str \<noteq> []
                   then (case strptime deadline_str of Some d \<Rightarrow> Some d | None \<Rightarrow> None)
                   else None);
                task = Task now uuid title' description' priority' deadline';
                a1 = a\<lparr>task_manager := add_task task (task_manager a),
                       trace := trace a @ [AddTaskCall task]\<rparr>;
                a2 = refresh_tasks True a1
            in a2\<lparr>trace := trace a2 @ [Dismiss]\<rparr>))"

subsection \<open>EditTaskScreen\<close>

record edit_task_form = new_task_form +
  status_select :: status

text \<open>The choices of the status select that \<^verbatim>\<open>EditTaskScreen.compose\<close> builds.\<close>

definition status_options :: "status list" where
  "status_options = [TODO, DOING, DONE]"

text \<open>\<open>task_obj\<close> is the task the screen was opened on (\<^verbatim>\<open>self._task_obj\<close>).\<close>

definition save_task :: "parser \<Rightarrow> task \<Rightarrow> edit_task_form \<Rightarrow> app \<Rightarrow> app" where
  "save_task strptime task_obj form a =
     (let title' = strip (title_input form)
      in if title' = [] then a
         else
           (let deadline_str = strip (deadline_input form);
                deadline' =
                  (if deadline_str \<noteq> []
                   then (case strptime deadline_str of
                           Some d \<Rightarrow> Some d
                         | None \<Rightarrow> deadline task_obj)
                   else None);
                f = \<lparr>f_title = Some title',
                     f_description = Some (strip (description_input form)),
                     f_priority = Some (priority_select form),
                     f_status = Some (status_select form),
                     f_deadline = Some (DeadlineValue deadline')\<rparr>;
                a1 = a\<lparr>task_manager :=
                         snd (update_task strptime (task_id task_obj) f (task_manager a)),
                       trace := trace a @ [UpdateTaskCall (task_id task_obj) f]\<rparr>;
                a2 = refresh_tasks True a1
            in a2\<lparr>trace := trace a2 @ [Dismiss]\<rparr>))"

definition delete_task :: "task \<Rightarrow> app \<Rightarrow> app" where
  "delete_task task_obj a =
     (let a1 = a\<lparr>task_manager := snd (delete_task_m (task_id task_obj) (task_manager a)),
                 trace := trace a @ [DeleteTaskCall (task_id task_obj)]\<rparr>;
          a2 = refresh_tasks True a1
      in a2\<lparr>trace := trace a2 @ [Dismiss]\<rparr>)"

subsection \<open>Moving the focused task\<close>

text \<open>
  \<^verbatim>\<open>self.focused\<close> is read from the framework: nothing, a \<^verbatim>\<open>TaskWidget\<close> with its task,
  or some other widget. The message is
  \<^verbatim>\<open>f"Moved '{task.title}' to {new_status.value.upper()}"\<close>.
\<close>

datatype widget = TaskWidget task | OtherWidget

definition moved_message :: "task \<Rightarrow> status \<Rightarrow> string" where
  "moved_message task new_status =
     ''Moved '' @ [CHR 0x27] @ title task @ [CHR 0x27] @ '' to '' @ status_value_upper new_status"

definition action_move_task_left :: "parser \<Rightarrow> widget option \<Rightarrow> app \<Rightarrow> app" where
  "action_move_task_left strptime focused a =
     (case focused of
        Some (TaskWidget task) \<Rightarrow>
          (let new_status =
                 (if status task = DONE then Some DOING
                  else if status task = DOING then Some TODO
                  else None)
           in case new_status of
                None \<Rightarrow> a
              | Some s \<Rightarrow>
                  (let f = no_fields\<lparr>f_status := Some s\<rparr>;
                       a1 = a\<lparr>task_manager :=
                                snd (update_task strptime (task_id task) f (task_manager a)),
                              trace := trace a @ [UpdateTaskCall (task_id task) f]\<rparr>;
                       a2 = refresh_tasks True a1
                   in a2\<lparr>trace := trace a2 @ [Notify (moved_message task s)]\<rparr>))
      | _ \<Rightarrow> a)"

definition action_move_task_right :: "parser \<Rightarrow> widget option \<Rightarrow> app \<Rightarrow> app" where
  "action_move_task_right strptime focused a =
     (case focused of
        Some (TaskWidget task) \<Rightarrow>
          (let new_status =
                 (if status task = TODO then Some DOING
                  else if status task = DOING then Some DONE
                  else None)
           in case new_status of
                None \<Rightarrow> a
              | Some s \<Rightarrow>
                  (let f = no_fields\<lparr>f_status := Some s\<rparr>;
                       a1 = a\<lparr>task_manager :=
                                snd (update_task strptime (task_id task) f (task_manager a)),
                              trace := trace a @ [UpdateTaskCall (task_id task) f]\<rparr>;
                       a2 = refresh_tasks True a1
                   in a2\<lparr>trace := trace a2 @ [Notify (moved_message task s)]\<rparr>))
      | _ \<Rightarrow> a)"

subsection \<open>Example inputs\<close>

text \<open>
  One stored task shown in the todo column, as the application is after \<^verbatim>\<open>on_mount\<close>, and
  the form values used to evaluate the functions.
\<close>

definition task1 :: task where
  "task1 =
     \<lparr>task_id = ''id-1'', title = ''Write report'', description = ''draft'',
      priority = NOT_URGENT_NOT_IMPORTANT, status = TODO, deadline = Some (2024, 12, 31),
      created_at = 100\<rparr>"

definition manager0 :: manager where
  "manager0 = \<lparr>tasks = [], storage = []\<rparr>"

definition manager1 :: manager where
  "manager1 = \<lparr>tasks = [task1], storage = [task1]\<rparr>"

definition app1 :: app where
  "app1 =
     \<lparr>task_manager = manager1, sort_mode = ''priority'', last_task_count = 1,
      board = Some \<lparr>todo_column = [task1], doing_column = [], done_column = []\<rparr>,
      trace = [Rebuild]\<rparr>"

definition task_done :: task where
  "task_done = task1\<lparr>status := DONE\<rparr>"

definition app_done :: app where
  "app_done =
     \<lparr>task_manager = \<lparr>tasks = [task_done], storage = [task_done]\<rparr>,
      sort_mode = ''priority'', last_task_count = 1,
      board = Some \<lparr>todo_column = [], doing_column = [], done_column = [task_done]\<rparr>,
      trace = [Rebuild]\<rparr>"

definition form_blank_title :: edit_task_form where
  "form_blank_title =
     \<lparr>title_input = [], description_input = ''final'', deadline_input = ''2025-01-15'',
      priority_select = URGENT_IMPORTANT, status_select = DONE\<rparr>"

definition form_bad_deadline :: edit_task_form where
  "form_bad_deadline =
     \<lparr>title_input = ''Write report'', description_input = ''draft'',
      deadline_input = ''next week'', priority_select = NOT_URGENT_NOT_IMPORTANT,
      status_select = DOING\<rparr>"

definition form_no_deadline :: edit_task_form where
  "form_no_deadline =
     \<lparr>title_input = ''Write report'', description_input = ''draft'',
      deadline_input = ''  '', priority_select = NOT_URGENT_NOT_IMPORTANT,
      status_select = TODO\<rparr>"

definition form_new_deadline :: edit_task_form where
  "form_new_deadline =
     \<lparr>title_input = ''Write report'', description_input = ''draft'',
      deadline_input = ''2025-01-15'', priority_select = NOT_URGENT_NOT_IMPORTANT,
      status_select = TODO\<rparr>"

definition form_reopen :: edit_task_form where
  "form_reopen =
     \<lparr>title_input = ''Write report'', description_input = ''draft'',
      deadline_input = ''2024-12-31'', priority_select = NOT_URGENT_NOT_IMPORTANT,
      status_select = TODO\<rparr>"

definition new_blank :: new_task_form where
  "new_blank =
     \<lparr>title_input = ''   '', description_input = ''something'', deadline_input = [],
      priority_select = URGENT_IMPORTANT\<rparr>"

definition new_bad_deadline :: new_task_form where
  "new_bad_deadline =
     \<lparr>title_input = '' Buy milk '', description_input = [], deadline_input = ''next week'',
      priority_select = NOT_URGENT_NOT_IMPORTANT\<rparr>"

definition form_finish :: edit_task_form where
  "form_finish =
     \<lparr>title_input = ''Write report'', description_input = ''draft'',
      deadline_input = ''2024-12-31'', priority_select = NOT_URGENT_NOT_IMPORTANT,
      status_select = DONE\<rparr>"

section \<open>Facts about the model\<close>

subsection \<open>Stripping\<close>

lemma hd_rev_dropWhile_rev:
  assumes "rev (dropWhile P (rev xs)) \<noteq> []"
  shows "hd (rev (dropWhile P (rev xs))) = hd xs"
  using assms
proof (induction xs rule: rev_induct)
  case Nil
  then show ?case by simp
next
  case (snoc x xs)
  then show ?case by (cases "P x") (auto simp: hd_append)
qed

lemma dropWhile_self: "xs = [] \<or> \<not> P (hd xs) \<Longrightarrow> dropWhile P xs = xs"
  by (cases xs) auto

lemma strip_strip: "strip (strip s) = strip s"
proof -
  define u where "u = dropWhile isspace s"
  define v where "v = rev (dropWhile isspace (rev u))"
  have u: "u = [] \<or> \<not> isspace (hd u)"
    unfolding u_def using hd_dropWhile [of isspace s] by blast
  have "v = [] \<or> \<not> isspace (hd v)"
    using u hd_rev_dropWhile_rev [of isspace u] unfolding v_def by fastforce
  then have 1: "dropWhile isspace v = v"
    by (rule dropWhile_self)
  have "rev v = dropWhile isspace (rev u)"
    by (simp add: v_def)
  then have "dropWhile isspace (rev v) = rev v"
    by simp
  with 1 have "strip v = v"
    by (simp add: strip_def)
  then show ?thesis
    by (simp add: strip_def v_def u_def)
qed

subsection \<open>The manager\<close>

lemma task_id_apply_fields: "task_id (apply_fields strptime f t) = task_id t"
  by (simp add: apply_fields_def set_deadline_def set_title_def
      split: option.splits deadline_arg.splits)

lemma find_task_update_first:
  assumes "\<And>t. task_id (g t) = task_id t"
  shows "find_task i (update_first i g ts) = map_option g (find_task i ts)"
  using assms by (induction ts) (simp_all add: find_task_def)

lemma length_update_first: "length (update_first i g ts) = length ts"
  by (induction ts) simp_all

lemma length_update_task:
  "length (tasks (snd (update_task strptime i f m))) = length (tasks m)"
  by (simp add: update_task_def save_def length_update_first split: option.splits)

lemma find_task_update_task:
  "find_task i (tasks (snd (update_task strptime i f m))) =
     map_option (apply_fields strptime f) (find_task i (tasks m))"
  by (simp add: update_task_def save_def find_task_update_first task_id_apply_fields
      split: option.splits)

lemma update_task_found:
  "find_task i (tasks m) = Some t \<Longrightarrow> fst (update_task strptime i f m)"
  by (simp add: update_task_def)

subsection \<open>The screens\<close>

lemma task_manager_refresh_tasks: "task_manager (refresh_tasks force a) = task_manager a"
  by (simp add: refresh_tasks_def Let_def split: option.splits)

lemma trace_refresh_tasks_forced:
  "trace (refresh_tasks True a) =
     trace a @ (case board a of None \<Rightarrow> [] | Some _ \<Rightarrow> [Rebuild])"
  by (simp add: refresh_tasks_def Let_def split: option.splits)

lemma task_manager_save_task:
  assumes "strip (title_input form) \<noteq> []"
  shows "task_manager (save_task strptime task_obj form a) =
     snd (update_task strptime (task_id task_obj)
       \<lparr>f_title = Some (strip (title_input form)),
        f_description = Some (strip (description_input form)),
        f_priority = Some (priority_select form),
        f_status = Some (status_select form),
        f_deadline = Some (DeadlineValue
          (if strip (deadline_input form) \<noteq> []
           then (case strptime (strip (deadline_input form)) of
                   Some d \<Rightarrow> Some d | None \<Rightarrow> deadline task_obj)
           else None))\<rparr> (task_manager a))"
  using assms by (simp add: save_task_def Let_def task_manager_refresh_tasks)

lemma trace_save_task:
  assumes "strip (title_input form) \<noteq> []"
  shows "trace (save_task strptime task_obj form a) =
     trace a @
     [UpdateTaskCall (task_id task_obj)
       \<lparr>f_title = Some (strip (title_input form)),
        f_description = Some (strip (description_input form)),
        f_priority = Some (priority_select form),
        f_status = Some (status_select form),
        f_deadline = Some (DeadlineValue
          (if strip (deadline_input form) \<noteq> []
           then (case strptime (strip (deadline_input form)) of
                   Some d \<Rightarrow> Some d | None \<Rightarrow> deadline task_obj)
           else None))\<rparr>] @
     (case board a of None \<Rightarrow> [] | Some _ \<Rightarrow> [Rebuild]) @ [Dismiss]"
  using assms by (simp add: save_task_def Let_def trace_refresh_tasks_forced)

lemma saved_task:
  assumes "strip (title_input form) \<noteq> []"
    and "find_task (task_id task_obj) (tasks (task_manager a)) = Some t"
  shows "find_task (task_id task_obj)
       (tasks (task_manager (save_task strptime task_obj form a))) =
     Some (t\<lparr>title := strip (title_input form),
            description := strip (description_input form),
            priority := priority_select form,
            status := status_select form,
            deadline :=
              (if strip (deadline_input form) \<noteq> []
               then (case strptime (strip (deadline_input form)) of
                       Some d \<Rightarrow> Some d | None \<Rightarrow> deadline task_obj)
               else None)\<rparr>)"
  using assms
  by (simp add: task_manager_save_task find_task_update_task apply_fields_def set_title_def
      set_deadline_def strip_strip)

lemma task_manager_create_task:
  assumes "strip (title_input form) \<noteq> []"
  shows "task_manager (create_task strptime uuid now form a) =
     add_task (Task now uuid (strip (title_input form)) (strip (description_input form))
       (priority_select form)
       (if strip (deadline_input form) \<noteq> []
        then (case strptime (strip (deadline_input form)) of
                Some d \<Rightarrow> Some d | None \<Rightarrow> None)
        else None)) (task_manager a)"
  using assms by (simp add: create_task_def Let_def task_manager_refresh_tasks)

lemma trace_create_task:
  assumes "strip (title_input form) \<noteq> []"
  shows "trace (create_task strptime uuid now form a) =
     trace a @
     [AddTaskCall (Task now uuid (strip (title_input form)) (strip (description_input form))
       (priority_select form)
       (if strip (deadline_input form) \<noteq> []
        then (case strptime (strip (deadline_input form)) of
                Some d \<Rightarrow> Some d | None \<Rightarrow> None)
        else None))] @
     (case board a of None \<Rightarrow> [] | Some _ \<Rightarrow> [Rebuild]) @ [Dismiss]"
  using assms by (simp add: create_task_def Let_def trace_refresh_tasks_forced)

subsection \<open>The example inputs\<close>

lemma app1_mounted: "app1 = on_mount (compose (TodoApp manager1))"
  by (simp add: app1_def on_mount_def compose_def TodoApp_def manager1_def refresh_tasks_def
      column_tasks_def sorted_for_def get_tasks_by_status_def task1_def
      sort_tasks_by_priority_def)

lemma app_done_mounted:
  "app_done = on_mount (compose (TodoApp \<lparr>tasks = [task_done], storage = [task_done]\<rparr>))"
  by (simp add: app_done_def on_mount_def compose_def TodoApp_def refresh_tasks_def
      column_tasks_def sorted_for_def get_tasks_by_status_def task_done_def task1_def
      sort_tasks_by_priority_def)

lemma strip_examples:
  "strip [] = []"
  "strip ''   '' = []"
  "strip ''  '' = []"
  "strip ''Write report'' = ''Write report''"
  "strip '' Buy milk '' = ''Buy milk''"
  "strip ''next week'' = ''next week''"
  "strip ''2025-01-15'' = ''2025-01-15''"
  "strip ''2024-12-31'' = ''2024-12-31''"
  "strip ''draft'' = ''draft''"
  "strip ''final'' = ''final''"
  by (simp_all add: strip_def isspace_def)

lemma strptime_ymd_examples:
  "strptime_ymd ''next week'' = None"
  "strptime_ymd ''2025-01-15'' = Some (2025, 1, 15)"
  "strptime_ymd ''2024-12-31'' = Some (2024, 12, 31)"
  by (simp_all add: strptime_ymd_def is_digit_def digit_val_def one_to_nine_def
      days_in_month_def is_leap_def)

section \<open>The claims\<close>

subsection \<open>C1: saving with a title that trims to empty\<close>

text \<open>
  Against C1. The task \<open>task1\<close> is stored with the description \<open>draft\<close> and the status todo.
  Saving it with an empty title, the description \<open>final\<close> and the status done leaves the
  stored task as it was: the other supplied fields are not applied.
\<close>

theorem save_task_blank_title_counterexample:
  "strip (title_input form_blank_title) = [] \<and>
   find_task (task_id task1) (tasks (task_manager app1)) = Some task1 \<and>
   find_task (task_id task1)
     (tasks (task_manager (save_task strptime_ymd task1 form_blank_title app1))) = Some task1 \<and>
   description task1 \<noteq> strip (description_input form_blank_title) \<and>
   status task1 \<noteq> status_select form_blank_title"
  by (simp add: save_task_def form_blank_title_def app1_def manager1_def task1_def
      find_task_def strip_def isspace_def)

text \<open>
  C1, amended. When the title typed into the edit screen trims to empty, \<open>save_task\<close>
  returns at once: the whole update is rejected. No field of any task changes, the manager is
  not called, nothing is persisted, the board is not rebuilt and the screen is not dismissed.
\<close>

theorem save_task_blank_title_rejected:
  "strip (title_input form) = [] \<Longrightarrow> save_task strptime task_obj form a = a"
  by (simp add: save_task_def)

theorem save_task_blank_title_rejected_witness:
  "strip (title_input form_blank_title) = [] \<and>
   save_task strptime_ymd task1 form_blank_title app1 = app1"
proof -
  have h: "strip (title_input form_blank_title) = []"
    by (simp add: form_blank_title_def strip_examples)
  show ?thesis
    using h save_task_blank_title_rejected [OF h, of strptime_ymd task1 app1] by simp
qed

subsection \<open>C2: who builds a task\<close>

text \<open>
  Against C2. The identifier of the stored task is the string the screen passes in: the
  screen builds the \<open>Task\<close> and hands it to the manager's \<open>add_task\<close>; two runs that differ
  only in the string drawn by the screen store tasks with these two identifiers.
\<close>

theorem create_task_id_counterexample:
  "map task_id
     (tasks (task_manager
        (create_task strptime_ymd ''drawn-by-the-screen'' 7 new_bad_deadline (TodoApp manager0)))) =
     [''drawn-by-the-screen''] \<and>
   map task_id
     (tasks (task_manager
        (create_task strptime_ymd ''another-draw'' 7 new_bad_deadline (TodoApp manager0)))) =
     [''another-draw''] \<and>
   trace (create_task strptime_ymd ''drawn-by-the-screen'' 7 new_bad_deadline (TodoApp manager0)) =
     [AddTaskCall (Task 7 ''drawn-by-the-screen'' ''Buy milk'' [] NOT_URGENT_NOT_IMPORTANT None),
      Dismiss]"
proof -
  have h: "strip (title_input new_bad_deadline) \<noteq> []"
    by (simp add: new_bad_deadline_def strip_examples)
  show ?thesis
    by (simp only: task_manager_create_task [OF h] trace_create_task [OF h])
      (simp add: add_task_def save_def Task_def TodoApp_def manager0_def new_bad_deadline_def
        strip_examples strptime_ymd_examples)
qed

text \<open>
  C2, amended. A task is built by \<open>NewTaskScreen.create_task\<close>, outside the manager: when
  the title does not trim to empty, the screen constructs the \<open>Task\<close> with the identifier it
  drew itself (\<open>uuid\<close>), the trimmed title and description, the selected priority and the
  parsed deadline, and passes the finished task to the manager's \<open>add_task\<close> in one call; the
  manager appends it and persists the collection. The status todo and \<open>created_at\<close> are the
  defaults of the constructor. The screen then rebuilds the board (if it exists) and
  dismisses itself; it returns nothing.
\<close>

theorem create_task_builds_the_task:
  assumes "strip (title_input form) \<noteq> []"
    and "t = Task now uuid (strip (title_input form)) (strip (description_input form))
           (priority_select form)
           (if strip (deadline_input form) \<noteq> []
            then (case strptime (strip (deadline_input form)) of
                    Some d \<Rightarrow> Some d | None \<Rightarrow> None)
            else None)"
  shows "trace (create_task strptime uuid now form a) =
           trace a @ [AddTaskCall t] @
           (case board a of None \<Rightarrow> [] | Some _ \<Rightarrow> [Rebuild]) @ [Dismiss] \<and>
         tasks (task_manager (create_task strptime uuid now form a)) =
           tasks (task_manager a) @ [t] \<and>
         storage (task_manager (create_task strptime uuid now form a)) =
           tasks (task_manager a) @ [t] \<and>
         task_id t = uuid \<and> status t = TODO \<and> created_at t = now"
  using assms
  by (simp add: task_manager_create_task trace_create_task add_task_def save_def Task_def)

theorem create_task_builds_the_task_witness:
  "strip (title_input new_bad_deadline) \<noteq> [] \<and>
   trace (create_task strptime_ymd ''u-1'' 7 new_bad_deadline app1) =
     [Rebuild,
      AddTaskCall (Task 7 ''u-1'' ''Buy milk'' [] NOT_URGENT_NOT_IMPORTANT None),
      Rebuild, Dismiss] \<and>
   tasks (task_manager (create_task strptime_ymd ''u-1'' 7 new_bad_deadline app1)) =
     [task1, Task 7 ''u-1'' ''Buy milk'' [] NOT_URGENT_NOT_IMPORTANT None]"
proof -
  have h: "strip (title_input new_bad_deadline) \<noteq> []"
    by (simp add: new_bad_deadline_def strip_examples)
  show ?thesis
    using h create_task_builds_the_task [OF h refl, of strptime_ymd "''u-1''" 7 app1]
    by (simp add: new_bad_deadline_def strip_examples strptime_ymd_examples app1_def
        manager1_def)
qed

subsection \<open>C3: creating with a title that trims to empty\<close>

text \<open>
  C3. When the title typed into the new-task screen trims to empty, \<open>create_task\<close> returns
  at once: no task is added, the manager is not called, nothing is persisted, and the result
  is the unchanged application, not an error.
\<close>

theorem create_task_blank_title_noop:
  "strip (title_input form) = [] \<Longrightarrow> create_task strptime uuid now form a = a"
  by (simp add: create_task_def)

theorem create_task_blank_title_noop_witness:
  "strip (title_input new_blank) = [] \<and> title_input new_blank = ''   '' \<and>
   create_task strptime_ymd ''u-1'' 7 new_blank app1 = app1"
proof -
  have h: "strip (title_input new_blank) = []"
    by (simp add: new_blank_def strip_examples)
  show ?thesis
    using h create_task_blank_title_noop [OF h, of strptime_ymd "''u-1''" 7 app1]
    by (simp add: new_blank_def)
qed

subsection \<open>C4: saving with a deadline that does not parse\<close>

text \<open>
  C4. When the edit screen is saved for a stored task with a deadline text that is not empty
  and that the parser rejects, the stored task keeps the deadline it had. Creating a task
  with the same text gives the new task no deadline.
\<close>

theorem save_task_malformed_deadline_keeps_old:
  assumes "strip (title_input form) \<noteq> []"
    and "find_task (task_id task_obj) (tasks (task_manager a)) = Some task_obj"
    and "strip (deadline_input form) \<noteq> []"
    and "strptime (strip (deadline_input form)) = None"
    and "strip (title_input nform) \<noteq> []"
    and "deadline_input nform = deadline_input form"
  shows "map_option deadline
           (find_task (task_id task_obj)
              (tasks (task_manager (save_task strptime task_obj form a)))) =
           Some (deadline task_obj) \<and>
         (\<exists>f. trace (save_task strptime task_obj form a) =
                trace a @ [UpdateTaskCall (task_id task_obj) f] @
                (case board a of None \<Rightarrow> [] | Some _ \<Rightarrow> [Rebuild]) @ [Dismiss] \<and>
              f_deadline f = Some (DeadlineValue (deadline task_obj))) \<and>
         map deadline (tasks (task_manager (create_task strptime uuid now nform a))) =
           map deadline (tasks (task_manager a)) @ [None]"
  using assms
  by (simp add: saved_task trace_save_task task_manager_create_task add_task_def save_def
      Task_def)

theorem save_task_malformed_deadline_keeps_old_witness:
  "strip (title_input form_bad_deadline) \<noteq> [] \<and>
   find_task (task_id task1) (tasks (task_manager app1)) = Some task1 \<and>
   strip (deadline_input form_bad_deadline) \<noteq> [] \<and>
   strptime_ymd (strip (deadline_input form_bad_deadline)) = None \<and>
   strip (title_input new_bad_deadline) \<noteq> [] \<and>
   deadline_input new_bad_deadline = deadline_input form_bad_deadline \<and>
   map_option deadline
     (find_task (task_id task1)
        (tasks (task_manager (save_task strptime_ymd task1 form_bad_deadline app1)))) =
     Some (Some (2024, 12, 31)) \<and>
   map deadline (tasks (task_manager (create_task strptime_ymd ''u-1'' 7 new_bad_deadline app1))) =
     [Some (2024, 12, 31), None]"
proof -
  have h1: "strip (title_input form_bad_deadline) \<noteq> []"
    by (simp add: form_bad_deadline_def strip_examples)
  have h2: "find_task (task_id task1) (tasks (task_manager app1)) = Some task1"
    by (simp add: find_task_def app1_def manager1_def)
  have h3: "strip (deadline_input form_bad_deadline) \<noteq> []"
    by (simp add: form_bad_deadline_def strip_examples)
  have h4: "strptime_ymd (strip (deadline_input form_bad_deadline)) = None"
    by (simp add: form_bad_deadline_def strip_examples strptime_ymd_examples)
  have h5: "strip (title_input new_bad_deadline) \<noteq> []"
    by (simp add: new_bad_deadline_def strip_examples)
  have h6: "deadline_input new_bad_deadline = deadline_input form_bad_deadline"
    by (simp add: new_bad_deadline_def form_bad_deadline_def)
  have d: "deadline task1 = Some (2024, 12, 31)"
    by (simp add: task1_def)
  have m: "map deadline (tasks (task_manager app1)) = [Some (2024, 12, 31)]"
    by (simp add: app1_def manager1_def task1_def)
  show ?thesis
    using h1 h2 h3 h4 h5 h6
      save_task_malformed_deadline_keeps_old
        [where strptime = strptime_ymd and uuid = "''u-1''" and now = 7, OF h1 h2 h3 h4 h5 h6]
    by (simp add: d m)
qed

subsection \<open>C5: creating with a deadline that does not parse\<close>

text \<open>
  C5. When a task is created with a title that does not trim to empty and a deadline text
  that is not empty and that the parser rejects, the task is still built, appended and
  persisted, and it has no deadline.
\<close>

theorem create_task_malformed_deadline:
  assumes "strip (title_input form) \<noteq> []"
    and "strip (deadline_input form) \<noteq> []"
    and "strptime (strip (deadline_input form)) = None"
  shows "tasks (task_manager (create_task strptime uuid now form a)) =
           tasks (task_manager a) @
           [Task now uuid (strip (title_input form)) (strip (description_input form))
              (priority_select form) None] \<and>
         storage (task_manager (create_task strptime uuid now form a)) =
           tasks (task_manager (create_task strptime uuid now form a)) \<and>
         deadline (last (tasks (task_manager (create_task strptime uuid now form a)))) = None \<and>
         trace (create_task strptime uuid now form a) =
           trace a @
           [AddTaskCall (Task now uuid (strip (title_input form))
              (strip (description_input form)) (priority_select form) None)] @
           (case board a of None \<Rightarrow> [] | Some _ \<Rightarrow> [Rebuild]) @ [Dismiss]"
  using assms
  by (simp add: task_manager_create_task trace_create_task add_task_def save_def Task_def)

theorem create_task_malformed_deadline_witness:
  "strip (title_input new_bad_deadline) \<noteq> [] \<and>
   strip (deadline_input new_bad_deadline) \<noteq> [] \<and>
   strptime_ymd (strip (deadline_input new_bad_deadline)) = None \<and>
   tasks (task_manager (create_task strptime_ymd ''u-1'' 7 new_bad_deadline (TodoApp manager0))) =
     [\<lparr>task_id = ''u-1'', title = ''Buy milk'', description = [],
       priority = NOT_URGENT_NOT_IMPORTANT, status = TODO, deadline = None,
       created_at = 7\<rparr>]"
proof -
  have h1: "strip (title_input new_bad_deadline) \<noteq> []"
    by (simp add: new_bad_deadline_def strip_examples)
  have h2: "strip (deadline_input new_bad_deadline) \<noteq> []"
    by (simp add: new_bad_deadline_def strip_examples)
  have h3: "strptime_ymd (strip (deadline_input new_bad_deadline)) = None"
    by (simp add: new_bad_deadline_def strip_examples strptime_ymd_examples)
  show ?thesis
    using h1 h2 h3
      create_task_malformed_deadline
        [where strptime = strptime_ymd and uuid = "''u-1''" and now = 7
           and a = "TodoApp manager0", OF h1 h2 h3]
    by (simp add: new_bad_deadline_def strip_examples Task_def TodoApp_def manager0_def)
qed

subsection \<open>C6: the unforced refresh\<close>

text \<open>
  C6. A refresh that is not forced does nothing when the number of tasks equals the number
  recorded at the last refresh: the columns are not rebuilt. An update keeps the number of
  tasks, so after an update of a task in place an unforced refresh still does nothing and
  the columns show what they showed before the update.
\<close>

theorem refresh_tasks_unforced_same_count:
  assumes "length (tasks (task_manager a)) = last_task_count a"
    and "a' = a\<lparr>task_manager := snd (update_task strptime i f (task_manager a))\<rparr>"
  shows "refresh_tasks False a = a \<and> refresh_tasks False a' = a' \<and>
         board (refresh_tasks False a') = board a \<and>
         trace (refresh_tasks False a') = trace a"
  using assms by (simp add: refresh_tasks_def length_update_task)

theorem refresh_tasks_unforced_same_count_witness:
  "length (tasks (task_manager app1)) = last_task_count app1 \<and>
   tasks (snd (update_task strptime_ymd ''id-1'' (no_fields\<lparr>f_status := Some DONE\<rparr>)
     (task_manager app1))) = [task_done] \<and>
   board (refresh_tasks False
     (app1\<lparr>task_manager :=
        snd (update_task strptime_ymd ''id-1'' (no_fields\<lparr>f_status := Some DONE\<rparr>)
          (task_manager app1))\<rparr>)) =
     Some \<lparr>todo_column = [task1], doing_column = [], done_column = []\<rparr>"
proof -
  have h: "length (tasks (task_manager app1)) = last_task_count app1"
    by (simp add: app1_def manager1_def)
  have u: "tasks (snd (update_task strptime_ymd ''id-1'' (no_fields\<lparr>f_status := Some DONE\<rparr>)
     (task_manager app1))) = [task_done]"
    by (simp add: update_task_def find_task_def app1_def manager1_def task1_def task_done_def
        save_def apply_fields_def set_title_def set_deadline_def no_fields_def)
  have b: "board app1 = Some \<lparr>todo_column = [task1], doing_column = [], done_column = []\<rparr>"
    by (simp add: app1_def)
  show ?thesis
    using h u b
      refresh_tasks_unforced_same_count [OF h refl, of strptime_ymd "''id-1''"
        "no_fields\<lparr>f_status := Some DONE\<rparr>"]
    by simp
qed

subsection \<open>C7: no status transition is forbidden\<close>

text \<open>
  C7. Let a stored task have any status \<open>s1\<close> and let any status \<open>s2\<close> be selected in the
  edit screen (the select offers all three). Saving with a title that does not trim to empty
  gives the stored task the status \<open>s2\<close>. The manager's update with the status \<open>s2\<close> alone
  succeeds as well and gives the task the status \<open>s2\<close>.
\<close>

theorem save_task_any_status_transition:
  assumes "strip (title_input form) \<noteq> []"
    and "find_task (task_id task_obj) (tasks (task_manager a)) = Some t"
    and "status t = s1"
    and "status_select form = s2"
  shows "map_option status
           (find_task (task_id task_obj)
              (tasks (task_manager (save_task strptime task_obj form a)))) = Some s2 \<and>
         (\<exists>f. trace (save_task strptime task_obj form a) =
                trace a @ [UpdateTaskCall (task_id task_obj) f] @
                (case board a of None \<Rightarrow> [] | Some _ \<Rightarrow> [Rebuild]) @ [Dismiss] \<and>
              f_status f = Some s2) \<and>
         s2 \<in> set status_options \<and>
         fst (update_task strptime (task_id task_obj) (no_fields\<lparr>f_status := Some s2\<rparr>)
                (task_manager a)) \<and>
         map_option status
           (find_task (task_id task_obj)
              (tasks (snd (update_task strptime (task_id task_obj)
                 (no_fields\<lparr>f_status := Some s2\<rparr>) (task_manager a))))) = Some s2"
proof -
  have "s2 \<in> set status_options"
    by (cases s2) (simp_all add: status_options_def)
  moreover have "status (apply_fields strptime (no_fields\<lparr>f_status := Some s2\<rparr>) t) = s2"
    by (simp add: apply_fields_def set_title_def set_deadline_def no_fields_def)
  ultimately show ?thesis
    using assms
    by (simp add: saved_task trace_save_task find_task_update_task update_task_found)
qed

theorem save_task_any_status_transition_witness:
  "strip (title_input form_reopen) \<noteq> [] \<and>
   find_task (task_id task_done) (tasks (task_manager app_done)) = Some task_done \<and>
   status task_done = DONE \<and> status_select form_reopen = TODO \<and>
   map_option status
     (find_task (task_id task_done)
        (tasks (task_manager (save_task strptime_ymd task_done form_reopen app_done)))) =
     Some TODO \<and>
   strip (title_input form_finish) \<noteq> [] \<and>
   find_task (task_id task1) (tasks (task_manager app1)) = Some task1 \<and>
   status task1 = TODO \<and> status_select form_finish = DONE \<and>
   map_option status
     (find_task (task_id task1)
        (tasks (task_manager
           (save_task strptime_ymd task1 form_finish app1)))) =
     Some DONE"
proof -
  have h1: "strip (title_input form_reopen) \<noteq> []"
    by (simp add: form_reopen_def strip_examples)
  have h2: "find_task (task_id task_done) (tasks (task_manager app_done)) = Some task_done"
    by (simp add: find_task_def app_done_def)
  have h3: "status task_done = DONE"
    by (simp add: task_done_def)
  have h4: "status_select form_reopen = TODO"
    by (simp add: form_reopen_def)
  have k1: "strip (title_input form_finish) \<noteq> []"
    by (simp add: form_finish_def strip_examples)
  have k2: "find_task (task_id task1) (tasks (task_manager app1)) = Some task1"
    by (simp add: find_task_def app1_def manager1_def)
  have k3: "status task1 = TODO"
    by (simp add: task1_def)
  have k4: "status_select form_finish = DONE"
    by (simp add: form_finish_def)
  show ?thesis
    using h1 h2 h3 h4 k1 k2 k3 k4
      save_task_any_status_transition [OF h1 h2 h3 h4, of strptime_ymd]
      save_task_any_status_transition [OF k1 k2 k3 k4, of strptime_ymd]
    by simp
qed

subsection \<open>C8: the final save at shutdown\<close>

text \<open>
  C8. \<open>on_unmount\<close> calls the manager's \<open>force_save\<close> once and does nothing else: the trace
  grows by exactly one \<open>ForceSaveCall\<close>, whatever happened before and whether or not the
  storage already holds the collection; afterwards the storage holds the collection, and the
  collection is as it was.
\<close>

theorem on_unmount_force_save_once:
  "trace (on_unmount a) = trace a @ [ForceSaveCall] \<and>
   length (filter (\<lambda>e. e = ForceSaveCall) (trace (on_unmount a))) =
     Suc (length (filter (\<lambda>e. e = ForceSaveCall) (trace a))) \<and>
   storage (task_manager (on_unmount a)) = tasks (task_manager a) \<and>
   tasks (task_manager (on_unmount a)) = tasks (task_manager a) \<and>
   on_unmount a =
     a\<lparr>task_manager := force_save (task_manager a), trace := trace a @ [ForceSaveCall]\<rparr>"
  by (simp add: on_unmount_def force_save_def save_def)

subsection \<open>C9: saving with an empty deadline\<close>

text \<open>
  C9. When the edit screen is saved for a stored task with a title that does not trim to
  empty and a deadline text that is empty or white space only, the stored task has no
  deadline afterwards, whatever deadline it had. A deadline text that parses replaces the
  deadline by the parsed date; so the previous deadline is kept only for a text that is not
  empty and does not parse.
\<close>

theorem save_task_empty_deadline_clears:
  assumes "find_task (task_id task_obj) (tasks (task_manager a)) = Some t"
    and "strip (title_input form) \<noteq> []"
    and "strip (deadline_input form) = []"
    and "strip (title_input form2) \<noteq> []"
    and "strip (deadline_input form2) \<noteq> []"
    and "strptime (strip (deadline_input form2)) = Some d"
  shows "map_option deadline
           (find_task (task_id task_obj)
              (tasks (task_manager (save_task strptime task_obj form a)))) = Some None \<and>
         (\<exists>f. trace (save_task strptime task_obj form a) =
                trace a @ [UpdateTaskCall (task_id task_obj) f] @
                (case board a of None \<Rightarrow> [] | Some _ \<Rightarrow> [Rebuild]) @ [Dismiss] \<and>
              f_deadline f = Some (DeadlineValue None)) \<and>
         map_option deadline
           (find_task (task_id task_obj)
              (tasks (task_manager (save_task strptime task_obj form2 a)))) = Some (Some d)"
  using assms by (simp add: saved_task trace_save_task)

theorem save_task_empty_deadline_clears_witness:
  "find_task (task_id task1) (tasks (task_manager app1)) = Some task1 \<and>
   deadline task1 = Some (2024, 12, 31) \<and>
   strip (title_input form_no_deadline) \<noteq> [] \<and>
   strip (deadline_input form_no_deadline) = [] \<and>
   strip (title_input form_new_deadline) \<noteq> [] \<and>
   strip (deadline_input form_new_deadline) \<noteq> [] \<and>
   strptime_ymd (strip (deadline_input form_new_deadline)) = Some (2025, 1, 15) \<and>
   map_option deadline
     (find_task (task_id task1)
        (tasks (task_manager (save_task strptime_ymd task1 form_no_deadline app1)))) =
     Some None \<and>
   map_option deadline
     (find_task (task_id task1)
        (tasks (task_manager (save_task strptime_ymd task1 form_new_deadline app1)))) =
     Some (Some (2025, 1, 15))"
proof -
  have h1: "find_task (task_id task1) (tasks (task_manager app1)) = Some task1"
    by (simp add: find_task_def app1_def manager1_def)
  have h2: "strip (title_input form_no_deadline) \<noteq> []"
    by (simp add: form_no_deadline_def strip_examples)
  have h3: "strip (deadline_input form_no_deadline) = []"
    by (simp add: form_no_deadline_def strip_examples)
  have h4: "strip (title_input form_new_deadline) \<noteq> []"
    by (simp add: form_new_deadline_def strip_examples)
  have h5: "strip (deadline_input form_new_deadline) \<noteq> []"
    by (simp add: form_new_deadline_def strip_examples)
  have h6: "strptime_ymd (strip (deadline_input form_new_deadline)) = Some (2025, 1, 15)"
    by (simp add: form_new_deadline_def strip_examples strptime_ymd_examples)
  have d: "deadline task1 = Some (2024, 12, 31)"
    by (simp add: task1_def)
  show ?thesis
    using h1 h2 h3 h4 h5 h6 d save_task_empty_deadline_clears [where strptime = strptime_ymd, OF h1 h2 h3 h4 h5 h6]
    by simp
qed

subsection \<open>C10: moving at the edge of the board\<close>

text \<open>
  C10. Moving the focused task left when its status is todo, or right when its status is
  done, leaves the application as it is: the manager is not called, nothing is persisted,
  the board is not rebuilt and nothing is notified.
\<close>

theorem move_task_at_edge_noop:
  assumes "status t1 = TODO"
    and "status t2 = DONE"
  shows "action_move_task_left strptime (Some (TaskWidget t1)) a = a \<and>
         action_move_task_right strptime (Some (TaskWidget t2)) a = a"
  using assms by (simp add: action_move_task_left_def action_move_task_right_def)

theorem move_task_at_edge_noop_witness:
  "status task1 = TODO \<and> status task_done = DONE \<and>
   action_move_task_left strptime_ymd (Some (TaskWidget task1)) app1 = app1 \<and>
   action_move_task_right strptime_ymd (Some (TaskWidget task_done)) app_done = app_done"
proof -
  have h1: "status task1 = TODO"
    by (simp add: task1_def)
  have h2: "status task_done = DONE"
    by (simp add: task_done_def)
  show ?thesis
    using h1 h2
      move_task_at_edge_noop [OF h1 h2, of strptime_ymd app1]
      move_task_at_edge_noop [OF h1 h2, of strptime_ymd app_done]
    by simp
qed

end
